theory Spec2Isabelle
  imports Main
begin

section \<open>Values exchanged with the document store\<close>

text \<open>
  The activities index (\<^verbatim>\<open>elasticsearch/indexes/activities/index.ts\<close>) talks to an
  Elasticsearch client. The client is an external service: the model takes its replies
  as an input (the record \<open>env\<close> below) and records every request sent to it in a trace
  (the record \<open>world\<close>), so that what the code sends and how often it sends it can be
  stated.
\<close>

text \<open>A JSON scalar, as it occurs in term filters, script parameters and sort tuples.\<close>

datatype field_value = FNum int | FStr string | FBool bool | FNull

text \<open>
  A thrown JavaScript value. The code inspects two places of it only:
  \<^verbatim>\<open>error.meta?.meta?.aborted\<close> (read for truthiness) and
  \<^verbatim>\<open>error.meta?.body?.error?.caused_by?.type\<close>. An \<^verbatim>\<open>new Error(msg)\<close> has neither.
\<close>

record js_error =
  message :: string
  meta_aborted :: bool
  caused_by_type :: "string option"

definition new_Error :: "string \<Rightarrow> js_error" where
  "new_Error msg = \<lparr>message = msg, meta_aborted = False, caused_by_type = None\<rparr>"

text \<open>
  The classification every catch block of the file computes:
  \<^verbatim>\<open>(error as any).meta?.meta?.aborted ||
    (error as any).meta?.body?.error?.caused_by?.type === "node_not_connected_exception"\<close>
\<close>

definition retryableError :: "js_error \<Rightarrow> bool" where
  "retryableError error \<longleftrightarrow>
     meta_aborted error \<or> caused_by_type error = Some ''node_not_connected_exception''"

subsection \<open>Queries\<close>

datatype range_bound = Gte int | Lt int

text \<open>
  The query trees the file builds. \<open>Bool must must_not should filter\<close> is a
  \<^verbatim>\<open>{ bool: {...} }\<close> node; an occurrence list that the source leaves out is \<open>[]\<close>, and a
  single object given where the store also accepts an array (\<^verbatim>\<open>filter: { bool: ... }\<close>) is
  a one-element list. \<open>RangeQ field bound format\<close> is
  \<^verbatim>\<open>{ range: { field: { gte | lt: v, format } } }\<close>.
\<close>

datatype query =
    Term string field_value
  | Terms string "field_value list"
  | Exists string
  | RangeQ string range_bound string
  | Bool (bool_must: "query list") (bool_must_not: "query list")
         (bool_should: "query list") (bool_filter: "query list")

text \<open>One entry of a sort specification: \<^verbatim>\<open>{ field: { order, format? } }\<close>.\<close>

datatype sort_clause = SortClause string string "string option"

subsection \<open>Documents, search requests and responses\<close>

text \<open>
  Of an \<^verbatim>\<open>ActivityDocument\<close> the file reads \<^verbatim>\<open>id\<close> and writes \<^verbatim>\<open>indexedAt\<close>; the other
  attributes are carried along unchanged.
\<close>

record activity =
  activity_id :: string
  activity_type :: string
  activity_contract :: string
  activity_timestamp :: int
  activity_createdAt :: int
  activity_indexedAt :: "int option"

text \<open>The \<^verbatim>\<open>params\<close> object of \<^verbatim>\<open>_search\<close>; an absent (\<^verbatim>\<open>undefined\<close>) property is \<open>None\<close>.\<close>

record search_params =
  sp_source :: "string list option"
  sp_query :: "query option"
  sp_sort :: "sort_clause list option"
  sp_size :: "int option"
  sp_search_after :: "string list option"
  sp_track_total_hits :: "bool option"

text \<open>What is sent to \<^verbatim>\<open>elasticsearch.search\<close>: \<^verbatim>\<open>{ index: INDEX_NAME, ...params }\<close>.\<close>

type_synonym search_request = "string \<times> search_params"

text \<open>
  A hit of a search response. The source reads \<^verbatim>\<open>hit._index\<close>, \<^verbatim>\<open>hit._source!\<close> and
  \<^verbatim>\<open>hit.sort!\<close>: with the non-null assertions it takes the source document and the sort
  tuple to be present on every hit, and so does the type.
\<close>

record hit =
  hit_index :: string
  hit_source :: activity
  hit_sort :: "field_value list"

record search_response =
  took :: nat
  hits :: "hit list"

subsection \<open>Bulk requests and responses\<close>

text \<open>
  A bulk body is a flat list: an action line, followed (for index, create and update)
  by the document or the script. \<open>UpdateOp index id retry_on_conflict\<close>.
\<close>

datatype bulk_line =
    IndexOp string string
  | CreateOp string string
  | UpdateOp string string nat
  | DeleteOp string string
  | Document activity
  | Script string "(string \<times> field_value) list"

record bulk_request =
  body :: "bulk_line list"
  filter_path :: "string option"
  ignore :: "nat list"

datatype bulk_op = OpIndex | OpCreate | OpUpdate | OpDelete

text \<open>
  An item of a bulk response holds the result of one operation under the operation's
  name; \<^verbatim>\<open>item.update?.status\<close> is \<^verbatim>\<open>undefined\<close> when the item is not an update.
\<close>

record bulk_item =
  item_op :: bulk_op
  item_status :: int

record bulk_response =
  errors :: bool
  items :: "bulk_item list"

definition update_status :: "bulk_item \<Rightarrow> int option" where
  "update_status item = (if item_op item = OpUpdate then Some (item_status item) else None)"

section \<open>The environment and the trace\<close>

text \<open>
  \<open>es_search env n req\<close> is the store's reply to the search request \<open>req\<close> when \<open>n\<close>
  search requests were sent before it (\<open>Inl\<close>: the client throws); \<open>es_bulk\<close> likewise.
  \<open>date_now env n\<close> is what the \<open>n\<close>-th reading of the clock (\<^verbatim>\<open>new Date()\<close>) returns.
  \<open>INDEX_NAME\<close> is \<^verbatim>\<open>`${getNetworkName()}.activities`\<close>, the logical alias; the network
  configuration is not part of the file. \<open>splitContinuation\<close> and \<open>buildContinuation\<close>
  are imported from \<^verbatim>\<open>@/common/utils\<close> and are parameters here; the first may throw.
\<close>

record env =
  INDEX_NAME :: string
  es_search :: "nat \<Rightarrow> search_request \<Rightarrow> js_error + search_response"
  es_bulk :: "nat \<Rightarrow> bulk_request \<Rightarrow> js_error + bulk_response"
  date_now :: "nat \<Rightarrow> int"
  splitContinuation :: "string \<Rightarrow> js_error + string list"
  buildContinuation :: "string \<Rightarrow> string"

datatype log_level = LogInfo | LogWarn | LogError

text \<open>
  A call of \<^verbatim>\<open>logger.info | warn | error\<close>: the level, the \<^verbatim>\<open>topic\<close> and the \<^verbatim>\<open>message\<close>
  of the logged object. The serialized payload is not modelled, and a message built
  from a template is kept up to its first interpolation.
\<close>

record log_entry =
  log_level :: log_level
  log_topic :: string
  log_message :: string

record world =
  searches :: "search_request list"
  bulks :: "bulk_request list"
  logs :: "log_entry list"
  clock_reads :: nat

definition logger :: "log_level \<Rightarrow> string \<Rightarrow> string \<Rightarrow> world \<Rightarrow> world" where
  "logger lvl topic msg st =
     st\<lparr>logs := logs st @ [\<lparr>log_level = lvl, log_topic = topic, log_message = msg\<rparr>]\<rparr>"

section \<open>The retry wrapper\<close>

text \<open>
  \<^verbatim>\<open>_search(params, retries = 0, debug = false)\<close>. The first statement stores
  \<^verbatim>\<open>params.track_total_hits ?? false\<close> back into \<^verbatim>\<open>params\<close>; the request is the index name
  with the parameters spread into it.
\<close>

definition with_track_total_hits :: "search_params \<Rightarrow> search_params" where
  "with_track_total_hits params =
     params\<lparr>sp_track_total_hits :=
       Some (case sp_track_total_hits params of None \<Rightarrow> False | Some b \<Rightarrow> b)\<rparr>"

definition send_search :: "env \<Rightarrow> search_params \<Rightarrow> world \<Rightarrow> (js_error + search_response) \<times> world" where
  "send_search env params st =
     (es_search env (length (searches st)) (INDEX_NAME env, params),
      st\<lparr>searches := searches st @ [(INDEX_NAME env, params)]\<rparr>)"

function u_search ::
  "env \<Rightarrow> search_params \<Rightarrow> nat \<Rightarrow> bool \<Rightarrow> world \<Rightarrow> (js_error + search_response) \<times> world"
where
  "u_search env params retries debug st =
     (case send_search env (with_track_total_hits params) st of
        (Inr esResult, st1) \<Rightarrow>
          (Inr esResult,
           if retries > 0 \<or> debug then logger LogInfo ''_search'' [] st1 else st1)
      | (Inl error, st1) \<Rightarrow>
          if retryableError error then
            if retries \<le> 3 then
              u_search env (with_track_total_hits params) (retries + 1) debug
                (logger LogWarn ''_search'' ''Retrying...'' st1)
            else
              (Inl (new_Error ''Could not perform search.''),
               logger LogError ''_search'' ''Max retries reached.''
                 (logger LogWarn ''_search'' ''Retrying...'' st1))
          else
            (Inl error, logger LogError ''_search'' ''Unexpected error.'' st1))"
  by pat_completeness auto
termination
  by (relation "measure (\<lambda>(env, params, retries, debug, st). 4 - retries)") auto

declare u_search.simps [simp del]

section \<open>JavaScript helpers\<close>

text \<open>
  Truthiness of optional values, as the source's \<^verbatim>\<open>if (x)\<close> and \<^verbatim>\<open>x ? a : b\<close> read it:
  \<^verbatim>\<open>undefined\<close> and \<^verbatim>\<open>null\<close> (\<open>None\<close>), \<^verbatim>\<open>0\<close>, \<^verbatim>\<open>""\<close> and \<^verbatim>\<open>false\<close> are falsy.
  \<open>arr xs\<close> reads an optional array for \<^verbatim>\<open>xs?.length\<close>.
\<close>

definition truthy_num :: "int option \<Rightarrow> bool" where
  "truthy_num x = (case x of None \<Rightarrow> False | Some n \<Rightarrow> n \<noteq> 0)"

definition truthy_str :: "string option \<Rightarrow> bool" where
  "truthy_str x = (case x of None \<Rightarrow> False | Some s \<Rightarrow> s \<noteq> [])"

definition truthy_bool :: "bool option \<Rightarrow> bool" where
  "truthy_bool x = (case x of None \<Rightarrow> False | Some b \<Rightarrow> b)"

definition arr :: "'a list option \<Rightarrow> 'a list" where
  "arr x = (case x of None \<Rightarrow> [] | Some xs \<Rightarrow> xs)"

text \<open>\<^verbatim>\<open>String.prototype.toLowerCase\<close> on the ASCII letters.\<close>

definition lower_char :: "char \<Rightarrow> char" where
  "lower_char c =
     (if 65 \<le> (of_char c :: nat) \<and> (of_char c :: nat) \<le> 90
      then char_of ((of_char c :: nat) + 32) else c)"

definition toLowerCase :: "string \<Rightarrow> string" where
  "toLowerCase s = map lower_char s"

text \<open>
  \<^verbatim>\<open>_.split(s, sep)\<close> for a one-character separator: never an empty array, and \<^verbatim>\<open>[""]\<close>
  for the empty string.
\<close>

fun lodash_split :: "string \<Rightarrow> char \<Rightarrow> string list" where
  "lodash_split [] sep = [[]]"
| "lodash_split (c # cs) sep =
     (if c = sep then [] # lodash_split cs sep
      else (case lodash_split cs sep of
              [] \<Rightarrow> [[c]]
            | w # ws \<Rightarrow> (c # w) # ws))"

text \<open>The decimal form \<^verbatim>\<open>String(n)\<close> of an integer.\<close>

function digits :: "int \<Rightarrow> string" where
  "digits n =
     (if n < 10 then [char_of (48 + n)]
      else digits (n div 10) @ [char_of (48 + n mod 10)])"
  by pat_completeness auto
termination
  by (relation "measure nat") auto

declare digits.simps [simp del]

definition js_String :: "field_value \<Rightarrow> string" where
  "js_String v =
     (case v of
        FNum i \<Rightarrow> (if i < 0 then CHR ''-'' # digits (- i) else digits i)
      | FStr s \<Rightarrow> s
      | FBool b \<Rightarrow> (if b then ''true'' else ''false'')
      | FNull \<Rightarrow> ''null'')"

text \<open>\<^verbatim>\<open>Array.prototype.join\<close>: a \<^verbatim>\<open>null\<close> element contributes the empty string.\<close>

fun js_join :: "field_value list \<Rightarrow> string \<Rightarrow> string" where
  "js_join [] sep = []"
| "js_join [v] sep = (if v = FNull then [] else js_String v)"
| "js_join (v # w # vs) sep =
     (if v = FNull then [] else js_String v) @ sep @ js_join (w # vs) sep"

section \<open>Index Writer: \<^verbatim>\<open>save\<close>\<close>

definition send_bulk :: "env \<Rightarrow> bulk_request \<Rightarrow> world \<Rightarrow> (js_error + bulk_response) \<times> world" where
  "send_bulk env req st =
     (es_bulk env (length (bulks st)) req, st\<lparr>bulks := bulks st @ [req]\<rparr>)"

text \<open>
  \<^verbatim>\<open>activities.forEach((activity) => { activity.indexedAt = new Date(); })\<close>: one clock
  reading per document, written into the caller's objects.
\<close>

fun stamp_indexedAt :: "env \<Rightarrow> activity list \<Rightarrow> world \<Rightarrow> activity list \<times> world" where
  "stamp_indexedAt env [] st = ([], st)"
| "stamp_indexedAt env (activity # rest) st =
     (case stamp_indexedAt env rest (st\<lparr>clock_reads := Suc (clock_reads st)\<rparr>) of
        (rest1, st1) \<Rightarrow>
          (activity\<lparr>activity_indexedAt := Some (date_now env (clock_reads st))\<rparr> # rest1, st1))"

definition save_body :: "env \<Rightarrow> bool \<Rightarrow> activity list \<Rightarrow> bulk_line list" where
  "save_body env upsert activities =
     concat (map (\<lambda>activity.
       [(if upsert then IndexOp else CreateOp) (INDEX_NAME env) (activity_id activity),
        Document activity]) activities)"

text \<open>
  \<^verbatim>\<open>save(activities, upsert = true, overrideIndexedAt = true)\<close>; an omitted argument is
  \<open>None\<close>. The result holds the completion of the call (\<open>Inl\<close>: the error rethrown by the
  catch block), the caller's documents after the call and the trace.
\<close>

definition save ::
  "env \<Rightarrow> activity list \<Rightarrow> bool option \<Rightarrow> bool option \<Rightarrow> world \<Rightarrow>
   (js_error + unit) \<times> activity list \<times> world"
where
  "save env activities upsert_arg overrideIndexedAt_arg st =
     (let upsert = (case upsert_arg of None \<Rightarrow> True | Some b \<Rightarrow> b);
          overrideIndexedAt = (case overrideIndexedAt_arg of None \<Rightarrow> True | Some b \<Rightarrow> b)
      in case (if overrideIndexedAt then stamp_indexedAt env activities st else (activities, st)) of
           (activities1, st1) \<Rightarrow>
             (case send_bulk env
                     \<lparr>body = save_body env upsert activities1, filter_path = None, ignore = []\<rparr> st1 of
                (Inr response, st2) \<Rightarrow>
                  (Inr (), activities1,
                   if errors response then
                     (if upsert then logger LogError ''save'' ''save activities errors'' st2 else st2)
                   else st2)
              | (Inl error, st2) \<Rightarrow>
                  (Inl error, activities1,
                   logger LogError ''save'' ''error saving activities.'' st2)))"

section \<open>Search Engine: \<^verbatim>\<open>search\<close>\<close>

datatype sort_by = SortByTimestamp | SortByCreatedAt

text \<open>The \<^verbatim>\<open>params\<close> object of \<^verbatim>\<open>search\<close>; a token is a (contract, tokenId) pair.\<close>

record search_args =
  types :: "string list option"
  tokens :: "(string \<times> string) list option"
  contracts :: "string list option"
  collections :: "string list option"
  sources :: "int list option"
  users :: "string list option"
  startTimestamp :: "int option"
  endTimestamp :: "int option"
  sortBy :: "sort_by option"
  limit :: "int option"
  continuation :: "string option"
  continuationAsInt :: "bool option"

text \<open>Lines 395 to 481: the filter tree, one clause pushed per filter that is present.\<close>

definition search_esQuery :: "search_args \<Rightarrow> query" where
  "search_esQuery params = Bool [] [] []
     ((if arr (types params) \<noteq> [] then
         [Terms ''type'' (map FStr (arr (types params)))] else []) @
      (if arr (collections params) \<noteq> [] then
         [Terms ''collection.id'' (map (\<lambda>collection. FStr (toLowerCase collection))
            (arr (collections params)))] else []) @
      (if arr (contracts params) \<noteq> [] then
         [Terms ''contract'' (map (\<lambda>contract. FStr (toLowerCase contract))
            (arr (contracts params)))] else []) @
      (if arr (sources params) \<noteq> [] then
         [Terms ''order.sourceId'' (map FNum (arr (sources params)))] else []) @
      (if arr (tokens params) \<noteq> [] then
         (if length (arr (contracts params)) = 1 then
            [Terms ''token.id'' (map (\<lambda>token. FStr (snd token)) (arr (tokens params)))]
          else
            [Bool [] [] (map (\<lambda>token.
               Bool [Term ''contract'' (FStr (toLowerCase (fst token))),
                     Term ''token.id'' (FStr (snd token))] [] [] []) (arr (tokens params))) []])
       else []) @
      (if arr (users params) \<noteq> [] then
         [Bool [] []
            [Terms ''fromAddress'' (map (\<lambda>user. FStr (toLowerCase user)) (arr (users params))),
             Terms ''toAddress'' (map (\<lambda>user. FStr (toLowerCase user)) (arr (users params)))] []]
       else []) @
      (if truthy_num (startTimestamp params) then
         [RangeQ ''timestamp'' (Gte (the (startTimestamp params))) ''epoch_second''] else []) @
      (if truthy_num (endTimestamp params) then
         [RangeQ ''timestamp'' (Lt (the (endTimestamp params))) ''epoch_second''] else []))"

text \<open>
  Lines 483 to 491. \<^verbatim>\<open>splitContinuation(c)[0]\<close> of an empty array is \<^verbatim>\<open>undefined\<close>, which
  \<^verbatim>\<open>_.split\<close> reads as the empty string. A throw of \<^verbatim>\<open>splitContinuation\<close> leaves \<^verbatim>\<open>search\<close>:
  the call is outside the try block.
\<close>

definition search_searchAfter :: "env \<Rightarrow> search_args \<Rightarrow> js_error + string list" where
  "search_searchAfter env params =
     (if truthy_str (continuation params) then
        (if truthy_bool (continuationAsInt params) then Inr [the (continuation params)]
         else (case splitContinuation env (the (continuation params)) of
                 Inl error \<Rightarrow> Inl error
               | Inr parts \<Rightarrow>
                   Inr (lodash_split (case parts of [] \<Rightarrow> [] | first # _ \<Rightarrow> first) CHR ''_'')))
      else Inr [])"

text \<open>Lines 493 to 504.\<close>

definition search_esSort :: "search_args \<Rightarrow> string list \<Rightarrow> sort_clause list" where
  "search_esSort params searchAfter =
     (if sortBy params = Some SortByTimestamp
      then [SortClause ''timestamp'' ''desc'' (Some ''epoch_second'')]
      else [SortClause ''createdAt'' ''desc'' None]) @
     (if length searchAfter \<noteq> 1 \<and> \<not> truthy_bool (continuationAsInt params)
      then [SortClause ''id'' ''desc'' None] else [])"

definition search_params_of :: "search_args \<Rightarrow> string list \<Rightarrow> search_params" where
  "search_params_of params searchAfter =
     \<lparr>sp_source = None,
      sp_query = Some (search_esQuery params),
      sp_sort = Some (search_esSort params searchAfter),
      sp_size = limit params,
      sp_search_after = (if searchAfter \<noteq> [] then Some searchAfter else None),
      sp_track_total_hits = None\<rparr>"

text \<open>Lines 520 to 534.\<close>

definition search_continuation :: "env \<Rightarrow> search_args \<Rightarrow> search_response \<Rightarrow> string option" where
  "search_continuation env params esResult =
     (if Some (int (length (hits esResult))) = limit params then
        (case hits esResult of
           [] \<Rightarrow> None
         | _ # _ \<Rightarrow>
             (if truthy_bool (continuationAsInt params)
              then Some (js_join (hit_sort (last (hits esResult))) ''_'')
              else Some (buildContinuation env (js_join (hit_sort (last (hits esResult))) ''_''))))
      else None)"

record search_result =
  res_activities :: "activity list"
  res_continuation :: "string option"

definition search ::
  "env \<Rightarrow> search_args \<Rightarrow> bool \<Rightarrow> world \<Rightarrow> (js_error + search_result) \<times> world"
where
  "search env params debug st =
     (case search_searchAfter env params of
        Inl error \<Rightarrow> (Inl error, st)
      | Inr searchAfter \<Rightarrow>
          (case u_search env (search_params_of params searchAfter) 0 debug st of
             (Inr esResult, st1) \<Rightarrow>
               (Inr \<lparr>res_activities = map hit_source (hits esResult),
                     res_continuation = search_continuation env params esResult\<rparr>, st1)
           | (Inl error, st1) \<Rightarrow> (Inl error, logger LogError ''search'' [] st1)))"

section \<open>Mutation Consistency Engine\<close>

text \<open>
  Of a \<^verbatim>\<open>CollectionsEntity\<close> the file reads \<^verbatim>\<open>id\<close>, \<^verbatim>\<open>name\<close> and
  \<^verbatim>\<open>metadata?.imageUrl\<close>.
\<close>

record collections_entity =
  collection_id :: string
  collection_name :: string
  collection_imageUrl :: "string option"

text \<open>\<^verbatim>\<open>x ?? null\<close> and an optional string as a script parameter.\<close>

definition str_or_null :: "string option \<Rightarrow> field_value" where
  "str_or_null x = (case x of None \<Rightarrow> FNull | Some s \<Rightarrow> FStr s)"

text \<open>
  The scan every propagation function sends through \<^verbatim>\<open>_search\<close>:
  \<^verbatim>\<open>{ _source: ["id"], query, size: 1000 }\<close>.
\<close>

definition scan_params :: "query \<Rightarrow> search_params" where
  "scan_params q =
     \<lparr>sp_source = Some [''id''], sp_query = Some q, sp_sort = None, sp_size = Some 1000,
      sp_search_after = None, sp_track_total_hits = None\<rparr>"

text \<open>
  \<^verbatim>\<open>response?.items.some((item) => item.update?.status !== 400)\<close>: it ranges over all
  items of the response, and an item without an update result counts.
\<close>

definition some_status_not_400 :: "bulk_response \<Rightarrow> bool" where
  "some_status_not_400 response =
     list_ex (\<lambda>item. update_status item \<noteq> Some 400) (items response)"

text \<open>
  The catch block of the propagation functions, the same text in each but for the
  topic: a retryable error sets \<^verbatim>\<open>keepGoing = true\<close> and the function returns it, any
  other error is rethrown.
\<close>

definition catch_propagation :: "string \<Rightarrow> js_error \<Rightarrow> world \<Rightarrow> (js_error + bool) \<times> world" where
  "catch_propagation topic error st =
     (if retryableError error then (Inr True, logger LogWarn topic ''Unexpected error'' st)
      else (Inl error, logger LogError topic ''Unexpected error'' st))"

definition set_collection_script :: string where
  "set_collection_script =
     ''ctx._source.collection = [:]; ctx._source.collection.id = params.collection_id; '' @
     ''ctx._source.collection.name = params.collection_name; '' @
     ''ctx._source.collection.image = params.collection_image;''"

definition collection_script_params :: "collections_entity \<Rightarrow> (string \<times> field_value) list" where
  "collection_script_params collection =
     [(''collection_id'', FStr (collection_id collection)),
      (''collection_name'', FStr (collection_name collection)),
      (''collection_image'', str_or_null (collection_imageUrl collection))]"

subsection \<open>\<^verbatim>\<open>updateActivitiesMissingCollection\<close>\<close>

definition updateActivitiesMissingCollection_query :: "string \<Rightarrow> int \<Rightarrow> query" where
  "updateActivitiesMissingCollection_query contract tokenId =
     Bool [Term ''contract'' (FStr (toLowerCase contract)), Term ''token.id'' (FNum tokenId)]
          [Exists ''collection.id''] [] []"

definition updateActivitiesMissingCollection_bulkParams ::
  "env \<Rightarrow> collections_entity \<Rightarrow> string list \<Rightarrow> bulk_request" where
  "updateActivitiesMissingCollection_bulkParams env collection pendingUpdateActivities =
     \<lparr>body = concat (map (\<lambda>activityId.
         [UpdateOp (INDEX_NAME env) activityId 3,
          Script set_collection_script (collection_script_params collection)])
         pendingUpdateActivities),
      filter_path = Some ''items.*.error'', ignore = [404]\<rparr>"

definition updateActivitiesMissingCollection ::
  "env \<Rightarrow> string \<Rightarrow> int \<Rightarrow> collections_entity \<Rightarrow> world \<Rightarrow> (js_error + bool) \<times> world"
where
  "updateActivitiesMissingCollection env contract tokenId collection st =
     (case u_search env
             (scan_params (updateActivitiesMissingCollection_query contract tokenId)) 0 False st of
        (Inl error, st1) \<Rightarrow> catch_propagation ''updateActivitiesMissingCollection'' error st1
      | (Inr esResult, st1) \<Rightarrow>
          (let pendingUpdateActivities =
                 map (\<lambda>hit. activity_id (hit_source hit)) (hits esResult)
           in if pendingUpdateActivities \<noteq> [] then
                (case send_bulk env
                        (updateActivitiesMissingCollection_bulkParams env collection
                           pendingUpdateActivities) st1 of
                   (Inl error, st2) \<Rightarrow>
                     catch_propagation ''updateActivitiesMissingCollection'' error st2
                 | (Inr response, st2) \<Rightarrow>
                     if errors response then
                       (Inr (some_status_not_400 response),
                        logger LogError ''updateActivitiesMissingCollection''
                          ''Errors in response'' st2)
                     else (Inr (length pendingUpdateActivities = 1000), st2))
              else (Inr False, st1)))"

subsection \<open>\<^verbatim>\<open>updateActivitiesCollection\<close>\<close>

text \<open>From here on a pending document is \<^verbatim>\<open>{ id: hit._source!.id, index: hit._index }\<close>.\<close>

record pending_document =
  doc_id :: string
  doc_index :: string

definition pending_of :: "search_response \<Rightarrow> pending_document list" where
  "pending_of esResult =
     map (\<lambda>hit. \<lparr>doc_id = activity_id (hit_source hit), doc_index = hit_index hit\<rparr>)
       (hits esResult)"

definition updateActivitiesCollection_query :: "string \<Rightarrow> string \<Rightarrow> collections_entity \<Rightarrow> query" where
  "updateActivitiesCollection_query contract tokenId newCollection =
     Bool [Term ''contract'' (FStr (toLowerCase contract)), Term ''token.id'' (FStr tokenId)]
          [Term ''collection.id'' (FStr (collection_id newCollection))] [] []"

definition updateActivitiesCollection_bulkParams ::
  "collections_entity \<Rightarrow> pending_document list \<Rightarrow> bulk_request" where
  "updateActivitiesCollection_bulkParams newCollection pendingUpdateDocuments =
     \<lparr>body = concat (map (\<lambda>document.
         [UpdateOp (doc_index document) (doc_id document) 3,
          Script set_collection_script (collection_script_params newCollection)])
         pendingUpdateDocuments),
      filter_path = Some ''items.*.error'', ignore = [404]\<rparr>"

definition updateActivitiesCollection ::
  "env \<Rightarrow> string \<Rightarrow> string \<Rightarrow> collections_entity \<Rightarrow> string \<Rightarrow> world \<Rightarrow>
   (js_error + bool) \<times> world"
where
  "updateActivitiesCollection env contract tokenId newCollection oldCollectionId st =
     (case u_search env
             (scan_params (updateActivitiesCollection_query contract tokenId newCollection))
             0 True st of
        (Inl error, st1) \<Rightarrow> catch_propagation ''updateActivitiesCollection'' error st1
      | (Inr esResult, st1) \<Rightarrow>
          (let pendingUpdateDocuments = pending_of esResult
           in if pendingUpdateDocuments \<noteq> [] then
                (case send_bulk env
                        (updateActivitiesCollection_bulkParams newCollection
                           pendingUpdateDocuments) st1 of
                   (Inl error, st2) \<Rightarrow> catch_propagation ''updateActivitiesCollection'' error st2
                 | (Inr response, st2) \<Rightarrow>
                     if errors response then
                       (Inr (some_status_not_400 response),
                        logger LogError ''updateActivitiesCollection'' ''Errors in response'' st2)
                     else (Inr (length pendingUpdateDocuments = 1000), st2))
              else (Inr False, st1)))"

subsection \<open>\<^verbatim>\<open>updateActivitiesTokenMetadata\<close>\<close>

record token_data =
  token_name :: "string option"
  token_image :: "string option"
  token_media :: "string option"

text \<open>
  One staleness clause: \<^verbatim>\<open>{ bool: v ? { must_not: [{ term: { field: v } }] }
  : { must: [{ exists: { field } }] } }\<close>.
\<close>

definition stale_clause :: "string \<Rightarrow> string option \<Rightarrow> query" where
  "stale_clause field v =
     (if truthy_str v then Bool [] [Term field (FStr (the v))] [] []
      else Bool [Exists field] [] [] [])"

definition updateActivitiesTokenMetadata_query :: "string \<Rightarrow> string \<Rightarrow> token_data \<Rightarrow> query" where
  "updateActivitiesTokenMetadata_query contract tokenId tokenData =
     Bool [] [] []
       [Bool [Term ''contract'' (FStr ''0xb76fbbb30e31f2c3bdaa2466cfb1cfe39b220d06''),
              Term ''token.id'' (FStr ''7514'')]
             [Term ''type'' (FStr ''bid'')]
             [stale_clause ''token.name'' (token_name tokenData),
              stale_clause ''token.image'' (token_image tokenData),
              stale_clause ''token.media'' (token_media tokenData)]
             []]"

definition token_script :: string where
  "token_script =
     ''if (params.token_name == null) { ctx._source.token.remove('name') } '' @
     ''else { ctx._source.token.name = params.token_name } '' @
     ''if (params.token_image == null) { ctx._source.token.remove('image') } '' @
     ''else { ctx._source.token.image = params.token_image } '' @
     ''if (params.token_media == null) { ctx._source.token.remove('media') } '' @
     ''else { ctx._source.token.media = params.token_media }''"

definition updateActivitiesTokenMetadata_bulkParams ::
  "token_data \<Rightarrow> pending_document list \<Rightarrow> bulk_request" where
  "updateActivitiesTokenMetadata_bulkParams tokenData pendingUpdateDocuments =
     \<lparr>body = concat (map (\<lambda>document.
         [UpdateOp (doc_index document) (doc_id document) 3,
          Script token_script
            [(''token_name'', str_or_null (token_name tokenData)),
             (''token_image'', str_or_null (token_image tokenData)),
             (''token_media'', str_or_null (token_media tokenData))]])
         pendingUpdateDocuments),
      filter_path = Some ''items.*.error'', ignore = [404]\<rparr>"

definition updateActivitiesTokenMetadata ::
  "env \<Rightarrow> string \<Rightarrow> string \<Rightarrow> token_data \<Rightarrow> world \<Rightarrow> (js_error + bool) \<times> world"
where
  "updateActivitiesTokenMetadata env contract tokenId tokenData st =
     (case u_search env
             (scan_params (updateActivitiesTokenMetadata_query contract tokenId tokenData))
             0 False st of
        (Inl error, st1) \<Rightarrow> catch_propagation ''updateActivitiesTokenMetadata'' error st1
      | (Inr esResult, st1) \<Rightarrow>
          (let pendingUpdateDocuments = pending_of esResult
           in if pendingUpdateDocuments \<noteq> [] then
                (case send_bulk env
                        (updateActivitiesTokenMetadata_bulkParams tokenData
                           pendingUpdateDocuments) st1 of
                   (Inl error, st2) \<Rightarrow>
                     catch_propagation ''updateActivitiesTokenMetadata'' error st2
                 | (Inr response, st2) \<Rightarrow>
                     if errors response then
                       (Inr (some_status_not_400 response),
                        logger LogError ''updateActivitiesTokenMetadata''
                          ''Errors in response'' st2)
                     else (Inr (length pendingUpdateDocuments = 1000), st2))
              else (Inr False, st1)))"

subsection \<open>\<^verbatim>\<open>updateActivitiesCollectionMetadata\<close>\<close>

record collection_data =
  data_name :: "string option"
  data_image :: "string option"

definition updateActivitiesCollectionMetadata_query :: "string \<Rightarrow> collection_data \<Rightarrow> query" where
  "updateActivitiesCollectionMetadata_query collectionId collectionData =
     Bool [Term ''collection.id'' (FStr (toLowerCase collectionId))] [] []
       [Bool [] []
          [stale_clause ''collection.name'' (data_name collectionData),
           stale_clause ''collection.image'' (data_image collectionData)]
          []]"

definition collection_metadata_script :: string where
  "collection_metadata_script =
     ''if (params.collection_name == null) { ctx._source.collection.remove('name') } '' @
     ''else { ctx._source.collection.name = params.collection_name } '' @
     ''if (params.collection_image == null) { ctx._source.collection.remove('image') } '' @
     ''else { ctx._source.collection.image = params.collection_image }''"

definition updateActivitiesCollectionMetadata_bulkParams ::
  "collection_data \<Rightarrow> pending_document list \<Rightarrow> bulk_request" where
  "updateActivitiesCollectionMetadata_bulkParams collectionData pendingUpdateDocuments =
     \<lparr>body = concat (map (\<lambda>document.
         [UpdateOp (doc_index document) (doc_id document) 3,
          Script collection_metadata_script
            [(''collection_name'', str_or_null (data_name collectionData)),
             (''collection_image'', str_or_null (data_image collectionData))]])
         pendingUpdateDocuments),
      filter_path = Some ''items.*.error'', ignore = [404]\<rparr>"

definition updateActivitiesCollectionMetadata ::
  "env \<Rightarrow> string \<Rightarrow> collection_data \<Rightarrow> world \<Rightarrow> (js_error + bool) \<times> world"
where
  "updateActivitiesCollectionMetadata env collectionId collectionData st =
     (case u_search env
             (scan_params (updateActivitiesCollectionMetadata_query collectionId collectionData))
             0 True st of
        (Inl error, st1) \<Rightarrow> catch_propagation ''updateActivitiesCollectionMetadata'' error st1
      | (Inr esResult, st1) \<Rightarrow>
          (let pendingUpdateDocuments = pending_of esResult
           in if pendingUpdateDocuments \<noteq> [] then
                (case send_bulk env
                        (updateActivitiesCollectionMetadata_bulkParams collectionData
                           pendingUpdateDocuments) st1 of
                   (Inl error, st2) \<Rightarrow>
                     catch_propagation ''updateActivitiesCollectionMetadata'' error st2
                 | (Inr response, st2) \<Rightarrow>
                     if errors response then
                       (Inr (some_status_not_400 response),
                        logger LogError ''updateActivitiesCollectionMetadata''
                          ''Errors in response.'' st2)
                     else
                       (Inr (length pendingUpdateDocuments = 1000),
                        logger LogInfo ''updateActivitiesCollectionMetadata'' ''Success.'' st2))
              else (Inr False, st1)))"

subsection \<open>The four propagation cases as one family\<close>

text \<open>
  The four functions above are separate exports of the source. To speak about every
  propagation call at once, a call is a value, and \<open>propagate\<close> runs the function it
  names; \<open>propagation_query\<close>, \<open>propagation_debug\<close> and \<open>propagation_bulkParams\<close> select
  the query, the \<^verbatim>\<open>debug\<close> argument of \<^verbatim>\<open>_search\<close> and the bulk request of that function.
\<close>

datatype propagation_call =
    MissingCollection string int collections_entity
  | Collection string string collections_entity string
  | TokenMetadata string string token_data
  | CollectionMetadata string collection_data

fun propagate :: "env \<Rightarrow> propagation_call \<Rightarrow> world \<Rightarrow> (js_error + bool) \<times> world" where
  "propagate env (MissingCollection contract tokenId collection) st =
     updateActivitiesMissingCollection env contract tokenId collection st"
| "propagate env (Collection contract tokenId newCollection oldCollectionId) st =
     updateActivitiesCollection env contract tokenId newCollection oldCollectionId st"
| "propagate env (TokenMetadata contract tokenId tokenData) st =
     updateActivitiesTokenMetadata env contract tokenId tokenData st"
| "propagate env (CollectionMetadata collectionId collectionData) st =
     updateActivitiesCollectionMetadata env collectionId collectionData st"

fun propagation_query :: "propagation_call \<Rightarrow> query" where
  "propagation_query (MissingCollection contract tokenId collection) =
     updateActivitiesMissingCollection_query contract tokenId"
| "propagation_query (Collection contract tokenId newCollection oldCollectionId) =
     updateActivitiesCollection_query contract tokenId newCollection"
| "propagation_query (TokenMetadata contract tokenId tokenData) =
     updateActivitiesTokenMetadata_query contract tokenId tokenData"
| "propagation_query (CollectionMetadata collectionId collectionData) =
     updateActivitiesCollectionMetadata_query collectionId collectionData"

fun propagation_debug :: "propagation_call \<Rightarrow> bool" where
  "propagation_debug (MissingCollection contract tokenId collection) = False"
| "propagation_debug (Collection contract tokenId newCollection oldCollectionId) = True"
| "propagation_debug (TokenMetadata contract tokenId tokenData) = False"
| "propagation_debug (CollectionMetadata collectionId collectionData) = True"

fun propagation_bulkParams :: "env \<Rightarrow> propagation_call \<Rightarrow> search_response \<Rightarrow> bulk_request" where
  "propagation_bulkParams env (MissingCollection contract tokenId collection) esResult =
     updateActivitiesMissingCollection_bulkParams env collection
       (map (\<lambda>hit. activity_id (hit_source hit)) (hits esResult))"
| "propagation_bulkParams env (Collection contract tokenId newCollection oldCollectionId) esResult =
     updateActivitiesCollection_bulkParams newCollection (pending_of esResult)"
| "propagation_bulkParams env (TokenMetadata contract tokenId tokenData) esResult =
     updateActivitiesTokenMetadata_bulkParams tokenData (pending_of esResult)"
| "propagation_bulkParams env (CollectionMetadata collectionId collectionData) esResult =
     updateActivitiesCollectionMetadata_bulkParams collectionData (pending_of esResult)"

section \<open>Reading the trace\<close>

text \<open>
  \<open>sent_searches st st'\<close> are the search requests sent between the states \<open>st\<close> and
  \<open>st'\<close>; \<open>documents_of\<close> are the documents of a bulk body, \<open>update_targets\<close> the
  (index, id) pairs its update actions are addressed to.
\<close>

definition sent_searches :: "world \<Rightarrow> world \<Rightarrow> search_request list" where
  "sent_searches st st' = drop (length (searches st)) (searches st')"

fun documents_of :: "bulk_line list \<Rightarrow> activity list" where
  "documents_of [] = []"
| "documents_of (Document d # ls) = d # documents_of ls"
| "documents_of (l # ls) = documents_of ls"

fun update_targets :: "bulk_line list \<Rightarrow> (string \<times> string) list" where
  "update_targets [] = []"
| "update_targets (UpdateOp i d n # ls) = (i, d) # update_targets ls"
| "update_targets (l # ls) = update_targets ls"

text \<open>
  \<open>stamped env st activities\<close>: the documents with \<^verbatim>\<open>indexedAt\<close> set to consecutive
  readings of the clock, starting at the reading that is next in \<open>st\<close>.
\<close>

definition stamped :: "env \<Rightarrow> world \<Rightarrow> activity list \<Rightarrow> activity list" where
  "stamped env st activities =
     map (\<lambda>(i, activity). activity\<lparr>activity_indexedAt := Some (date_now env i)\<rparr>)
       (enumerate (clock_reads st) activities)"

section \<open>Concrete stores and inputs\<close>

text \<open>
  Inputs at which the theorems below are instantiated. \<open>example_store\<close> answers every
  search with \<open>search_reply\<close> and every bulk request with \<open>bulk_reply\<close>; its cursor codec
  is the identity (\<open>splitContinuation\<close> returns the cursor as its only component).
  \<open>flaky_store k\<close> aborts the first \<open>k\<close> searches and answers the later ones.
\<close>

definition world0 :: world where
  "world0 = \<lparr>searches = [], bulks = [], logs = [], clock_reads = 0\<rparr>"

definition aborted_error :: js_error where
  "aborted_error = \<lparr>message = ''Request aborted'', meta_aborted = True, caused_by_type = None\<rparr>"

definition fatal_error :: js_error where
  "fatal_error =
     \<lparr>message = ''parsing_exception'', meta_aborted = False,
      caused_by_type = Some ''parsing_exception''\<rparr>"

definition example_store :: "js_error + search_response \<Rightarrow> js_error + bulk_response \<Rightarrow> env" where
  "example_store search_reply bulk_reply =
     \<lparr>INDEX_NAME = ''mainnet.activities'',
      es_search = (\<lambda>n req. search_reply),
      es_bulk = (\<lambda>n req. bulk_reply),
      date_now = (\<lambda>n. 1700000000000 + int n),
      splitContinuation = (\<lambda>c. Inr [c]),
      buildContinuation = (\<lambda>s. s)\<rparr>"

definition flaky_store :: "nat \<Rightarrow> search_response \<Rightarrow> js_error + bulk_response \<Rightarrow> env" where
  "flaky_store k search_reply bulk_reply =
     (example_store (Inr search_reply) bulk_reply)
       \<lparr>es_search := (\<lambda>n req. if n < k then Inl aborted_error else Inr search_reply)\<rparr>"

definition example_activity :: "string \<Rightarrow> activity" where
  "example_activity i =
     \<lparr>activity_id = i, activity_type = ''sale'', activity_contract = ''0xabc'',
      activity_timestamp = 1700000000, activity_createdAt = 1700000001,
      activity_indexedAt = None\<rparr>"

definition example_hit :: "string \<Rightarrow> hit" where
  "example_hit i =
     \<lparr>hit_index = ''mainnet.activities-1690000000000'', hit_source = example_activity i,
      hit_sort = [FNum 1700000001, FStr i]\<rparr>"

definition hits_response :: "hit list \<Rightarrow> search_response" where
  "hits_response hs = \<lparr>took = 1, hits = hs\<rparr>"

definition no_args :: search_args where
  "no_args =
     \<lparr>types = None, tokens = None, contracts = None, collections = None, sources = None,
      users = None, startTimestamp = None, endTimestamp = None, sortBy = None, limit = None,
      continuation = None, continuationAsInt = None\<rparr>"

definition example_collection :: collections_entity where
  "example_collection =
     \<lparr>collection_id = ''0xabc'', collection_name = ''Apes'', collection_imageUrl = None\<rparr>"

definition example_collection_data :: collection_data where
  "example_collection_data = \<lparr>data_name = Some ''Apes'', data_image = None\<rparr>"

definition example_token_data :: token_data where
  "example_token_data = \<lparr>token_name = Some ''Ape #1'', token_image = None, token_media = None\<rparr>"

definition ok_response :: bulk_response where
  "ok_response = \<lparr>errors = False, items = []\<rparr>"

definition all_conflicts_response :: "nat \<Rightarrow> bulk_response" where
  "all_conflicts_response n =
     \<lparr>errors = True, items = replicate n \<lparr>item_op = OpUpdate, item_status = 400\<rparr>\<rparr>"

section \<open>Facts about the trace and the retry wrapper\<close>

lemma searches_logger [simp]: "searches (logger l t m st) = searches st"
  by (simp add: logger_def)

lemma bulks_logger [simp]: "bulks (logger l t m st) = bulks st"
  by (simp add: logger_def)

lemma clock_reads_logger [simp]: "clock_reads (logger l t m st) = clock_reads st"
  by (simp add: logger_def)

lemma logs_logger [simp]:
  "logs (logger l t m st) = logs st @ [\<lparr>log_level = l, log_topic = t, log_message = m\<rparr>]"
  by (simp add: logger_def)

lemma with_track_total_hits_idem [simp]:
  "with_track_total_hits (with_track_total_hits params) = with_track_total_hits params"
  by (simp add: with_track_total_hits_def)

lemma not_retryable_new_Error [simp]: "\<not> retryableError (new_Error msg)"
  by (simp add: retryableError_def new_Error_def)

lemma retryable_aborted_error [simp]: "retryableError aborted_error"
  by (simp add: retryableError_def aborted_error_def)

lemma not_retryable_fatal_error [simp]: "\<not> retryableError fatal_error"
  by (simp add: retryableError_def fatal_error_def)

lemma u_search_always_transient:
  "(\<forall>n req. \<exists>e. es_search env n req = Inl e \<and> retryableError e) \<Longrightarrow> retries \<le> 4 \<Longrightarrow>
     fst (u_search env params retries debug st) = Inl (new_Error ''Could not perform search.'') \<and>
     length (searches (snd (u_search env params retries debug st))) =
       length (searches st) + (5 - retries)"
proof (induction env params retries debug st rule: u_search.induct)
  case (1 env params retries debug st)
  obtain e where e:
    "es_search env (length (searches st)) (INDEX_NAME env, with_track_total_hits params) = Inl e"
    "retryableError e"
    using "1.prems"(1) by blast
  show ?case
  proof (cases "retries \<le> 3")
    case True
    with 1 e show ?thesis
      by (subst (1 2) u_search.simps) (simp add: send_search_def)
  next
    case False
    with 1 e show ?thesis
      by (subst (1 2) u_search.simps) (simp add: send_search_def)
  qed
qed

lemma u_search_fatal:
  assumes "es_search env (length (searches st)) (INDEX_NAME env, with_track_total_hits params) = Inl error"
    and "\<not> retryableError error"
  shows "u_search env params retries debug st =
     (Inl error, logger LogError ''_search'' ''Unexpected error.''
        (st\<lparr>searches := searches st @ [(INDEX_NAME env, with_track_total_hits params)]\<rparr>))"
  using assms by (subst u_search.simps) (simp add: send_search_def)

lemma u_search_ok:
  assumes "es_search env (length (searches st)) (INDEX_NAME env, with_track_total_hits params) = Inr r"
  shows "u_search env params retries debug st =
     (Inr r,
      if retries > 0 \<or> debug
      then logger LogInfo ''_search'' []
        (st\<lparr>searches := searches st @ [(INDEX_NAME env, with_track_total_hits params)]\<rparr>)
      else st\<lparr>searches := searches st @ [(INDEX_NAME env, with_track_total_hits params)]\<rparr>)"
  using assms by (subst u_search.simps) (simp add: send_search_def)

lemma u_search_error_cases:
  "(case fst (u_search env params retries debug st) of
      Inl e \<Rightarrow> \<not> retryableError e | Inr r \<Rightarrow> True)"
proof (induction env params retries debug st rule: u_search.induct)
  case (1 env params retries debug st)
  show ?case
    by (subst u_search.simps) (use 1 in \<open>auto simp: send_search_def split: sum.splits\<close>)
qed

lemma u_search_never_transient:
  "u_search env params retries debug st = (Inl e, st') \<Longrightarrow> \<not> retryableError e"
  using u_search_error_cases [of env params retries debug st] by simp

lemma u_search_searches:
  "\<exists>sent. searches (snd (u_search env params retries debug st)) =
     searches st @ (INDEX_NAME env, with_track_total_hits params) # sent \<and>
     set sent \<subseteq> {(INDEX_NAME env, with_track_total_hits params)}"
proof (induction env params retries debug st rule: u_search.induct)
  case (1 env params retries debug st)
  show ?case
    by (subst u_search.simps) (use 1 in \<open>fastforce simp: send_search_def split: sum.splits\<close>)
qed

lemma sent_searches_u_search:
  "set (sent_searches st (snd (u_search env params retries debug st))) =
     {(INDEX_NAME env, with_track_total_hits params)}"
proof -
  obtain sent where "searches (snd (u_search env params retries debug st)) =
     searches st @ (INDEX_NAME env, with_track_total_hits params) # sent"
    "set sent \<subseteq> {(INDEX_NAME env, with_track_total_hits params)}"
    using u_search_searches by blast
  then show ?thesis
    by (auto simp: sent_searches_def)
qed

section \<open>The retry bound\<close>

text \<open>
  Claim C2, as the code has it. A query submitted through the retry wrapper
  \<^verbatim>\<open>_search\<close> whose every attempt meets a transient failure (aborted operation or
  \<^verbatim>\<open>node_not_connected_exception\<close>) is attempted exactly five times in total: the first
  attempt and the four retries that \<^verbatim>\<open>retries <= 3\<close> admits for \<^verbatim>\<open>retries\<close> = 0, 1, 2, 3.
  Then the terminal error "Could not perform search." is raised, which is not itself
  transient and so differs from the cause. A query whose first attempt meets a fatal
  failure is attempted exactly once, and the original error propagates.
\<close>

theorem u_search_retry_bound:
  "((\<forall>n req. \<exists>e. es_search env n req = Inl e \<and> retryableError e) \<longrightarrow>
      fst (u_search env params 0 debug st) = Inl (new_Error ''Could not perform search.'') \<and>
      \<not> retryableError (new_Error ''Could not perform search.'') \<and>
      length (sent_searches st (snd (u_search env params 0 debug st))) = 5) \<and>
   (\<forall>error.
      es_search env (length (searches st)) (INDEX_NAME env, with_track_total_hits params) = Inl error \<and>
      \<not> retryableError error \<longrightarrow>
      fst (u_search env params 0 debug st) = Inl error \<and>
      length (sent_searches st (snd (u_search env params 0 debug st))) = 1)"
proof (intro conjI impI allI)
  assume a: "\<forall>n req. \<exists>e. es_search env n req = Inl e \<and> retryableError e"
  from u_search_always_transient [OF a, of 0 params debug st]
  show "fst (u_search env params 0 debug st) = Inl (new_Error ''Could not perform search.'')"
    and "length (sent_searches st (snd (u_search env params 0 debug st))) = 5"
    by (simp_all add: sent_searches_def)
  show "\<not> retryableError (new_Error ''Could not perform search.'')"
    by simp
next
  fix error
  assume "es_search env (length (searches st)) (INDEX_NAME env, with_track_total_hits params) = Inl error \<and>
      \<not> retryableError error"
  then have "u_search env params 0 debug st =
     (Inl error, logger LogError ''_search'' ''Unexpected error.''
        (st\<lparr>searches := searches st @ [(INDEX_NAME env, with_track_total_hits params)]\<rparr>))"
    using u_search_fatal by blast
  then show "fst (u_search env params 0 debug st) = Inl error"
    and "length (sent_searches st (snd (u_search env params 0 debug st))) = 1"
    by (simp_all add: sent_searches_def)
qed

text \<open>
  The retry bound at a store that aborts every search, and at a store that answers
  every search with a fatal error.
\<close>

theorem u_search_retry_bound_witness:
  "fst (u_search (example_store (Inl aborted_error) (Inr ok_response))
          (scan_params (Exists ''collection.id'')) 0 False world0) =
     Inl (new_Error ''Could not perform search.'') \<and>
   length (sent_searches world0
     (snd (u_search (example_store (Inl aborted_error) (Inr ok_response))
          (scan_params (Exists ''collection.id'')) 0 False world0))) = 5 \<and>
   fst (u_search (example_store (Inl fatal_error) (Inr ok_response))
          (scan_params (Exists ''collection.id'')) 0 False world0) = Inl fatal_error \<and>
   length (sent_searches world0
     (snd (u_search (example_store (Inl fatal_error) (Inr ok_response))
          (scan_params (Exists ''collection.id'')) 0 False world0))) = 1"
  using
    u_search_retry_bound [of "example_store (Inl aborted_error) (Inr ok_response)"
      "scan_params (Exists ''collection.id'')" False world0]
    u_search_retry_bound [of "example_store (Inl fatal_error) (Inr ok_response)"
      "scan_params (Exists ''collection.id'')" False world0]
  by (simp add: example_store_def)

text \<open>
  At the store that aborts every search, the wrapper sends five requests, not four.
\<close>

theorem u_search_four_attempts_counterexample:
  "length (sent_searches world0
     (snd (u_search (example_store (Inl aborted_error) (Inr ok_response))
          (scan_params (Exists ''collection.id'')) 0 False world0))) = 5 \<and>
   length (sent_searches world0
     (snd (u_search (example_store (Inl aborted_error) (Inr ok_response))
          (scan_params (Exists ''collection.id'')) 0 False world0))) \<noteq> 4"
  using u_search_always_transient [of "example_store (Inl aborted_error) (Inr ok_response)" 0
      "scan_params (Exists ''collection.id'')" False world0]
  by (simp add: example_store_def sent_searches_def)

section \<open>The propagation functions\<close>

text \<open>
  What a propagation call returns, in terms of what \<^verbatim>\<open>_search\<close> returns for the scan and
  of the store's reply to the bulk request. An error of the scan reaches the catch
  block, which finds it not retryable, since \<^verbatim>\<open>_search\<close> raises no other kind.
\<close>

lemma propagate_result:
  "fst (propagate env call st) =
     (case u_search env (scan_params (propagation_query call)) 0 (propagation_debug call) st of
        (Inl error, st1) \<Rightarrow> Inl error
      | (Inr esResult, st1) \<Rightarrow>
          if hits esResult = [] then Inr False
          else (case es_bulk env (length (bulks st1)) (propagation_bulkParams env call esResult) of
                  Inl error \<Rightarrow> if retryableError error then Inr True else Inl error
                | Inr response \<Rightarrow>
                    Inr (if errors response then some_status_not_400 response
                         else length (hits esResult) = 1000)))"
proof -
  obtain res st1 where s:
    "u_search env (scan_params (propagation_query call)) 0 (propagation_debug call) st = (res, st1)"
    by (cases "u_search env (scan_params (propagation_query call)) 0 (propagation_debug call) st")
  show ?thesis
  proof (cases res)
    case (Inl e)
    with s have "\<not> retryableError e"
      using u_search_never_transient by blast
    with s Inl show ?thesis
      by (cases call)
        (simp_all add: updateActivitiesMissingCollection_def updateActivitiesCollection_def
          updateActivitiesTokenMetadata_def updateActivitiesCollectionMetadata_def
          catch_propagation_def)
  next
    case (Inr r)
    with s show ?thesis
      by (cases call)
        (auto simp: updateActivitiesMissingCollection_def updateActivitiesCollection_def
          updateActivitiesTokenMetadata_def updateActivitiesCollectionMetadata_def
          catch_propagation_def send_bulk_def pending_of_def Let_def split: sum.splits)
  qed
qed

lemma example_store_sel [simp]:
  "INDEX_NAME (example_store s b) = ''mainnet.activities''"
  "es_search (example_store s b) n req = s"
  "es_bulk (example_store s b) m breq = b"
  "date_now (example_store s b) n = 1700000000000 + int n"
  "splitContinuation (example_store s b) c = Inr [c]"
  "buildContinuation (example_store s b) c = c"
  by (simp_all add: example_store_def)

lemma example_scan:
  "u_search (example_store (Inr r) b) params 0 debug world0 =
     (Inr r,
      if debug
      then logger LogInfo ''_search'' []
        (world0\<lparr>searches := [(''mainnet.activities'', with_track_total_hits params)]\<rparr>)
      else world0\<lparr>searches := [(''mainnet.activities'', with_track_total_hits params)]\<rparr>)"
  using u_search_ok [of "example_store (Inr r) b" world0 params r 0 debug]
  by (simp add: world0_def)

lemma example_scan_fatal:
  "u_search (example_store (Inl fatal_error) b) params 0 debug world0 =
     (Inl fatal_error, logger LogError ''_search'' ''Unexpected error.''
        (world0\<lparr>searches := [(''mainnet.activities'', with_track_total_hits params)]\<rparr>))"
  using u_search_fatal [of "example_store (Inl fatal_error) b" world0 params fatal_error 0 debug]
  by (simp add: world0_def)

text \<open>
  Claim C1, as the code has it. For every propagation call whose scan finds at least one
  candidate and whose bulk request is answered: when the bulk response flags errors, the
  returned keepGoing is true exactly if some item of the response has no update result
  of status 400, whatever the number of candidates; when the response flags no errors,
  keepGoing is true exactly if 1000 candidates were found. In particular a call over
  exactly 1000 stale documents returns true and a call over 999 returns false when all
  updates succeed.
\<close>

theorem keepGoing_signal:
  assumes "u_search env (scan_params (propagation_query call)) 0 (propagation_debug call) st =
             (Inr esResult, st1)"
    and "hits esResult \<noteq> []"
    and "es_bulk env (length (bulks st1)) (propagation_bulkParams env call esResult) = Inr response"
  shows "fst (propagate env call st) =
     Inr (if errors response then some_status_not_400 response
          else length (hits esResult) = 1000)"
  using assms by (simp add: propagate_result)

text \<open>
  The signal over 1000 and over 999 stale documents, every update succeeding.
\<close>

theorem keepGoing_signal_witness:
  "fst (propagate
     (example_store (Inr (hits_response (map example_hit (replicate 1000 ''a'')))) (Inr ok_response))
     (CollectionMetadata ''0xABC'' example_collection_data) world0) = Inr True \<and>
   fst (propagate
     (example_store (Inr (hits_response (map example_hit (replicate 999 ''a'')))) (Inr ok_response))
     (MissingCollection ''0xABC'' 1 example_collection) world0) = Inr False"
  using
    keepGoing_signal [of
      "example_store (Inr (hits_response (map example_hit (replicate 1000 ''a'')))) (Inr ok_response)"
      "CollectionMetadata ''0xABC'' example_collection_data" world0
      "hits_response (map example_hit (replicate 1000 ''a''))" _ ok_response]
    keepGoing_signal [of
      "example_store (Inr (hits_response (map example_hit (replicate 999 ''a'')))) (Inr ok_response)"
      "MissingCollection ''0xABC'' 1 example_collection" world0
      "hits_response (map example_hit (replicate 999 ''a''))" _ ok_response]
  by (simp add: example_scan hits_response_def ok_response_def)

text \<open>
  Over exactly 1000 candidates whose updates all meet a conflict of status 400, the
  signal is false.
\<close>

theorem keepGoing_full_batch_counterexample:
  "length (hits (hits_response (map example_hit (replicate 1000 ''a'')))) = 1000 \<and>
   fst (updateActivitiesCollectionMetadata
     (example_store (Inr (hits_response (map example_hit (replicate 1000 ''a''))))
        (Inr (all_conflicts_response 1000)))
     ''0xABC'' example_collection_data world0) = Inr False"
  using
    propagate_result [of
      "example_store (Inr (hits_response (map example_hit (replicate 1000 ''a''))))
        (Inr (all_conflicts_response 1000))"
      "CollectionMetadata ''0xABC'' example_collection_data" world0]
  by (simp add: example_scan hits_response_def all_conflicts_response_def
      some_status_not_400_def update_status_def list_ex_iff)


text \<open>
  Claim C7, as the code has it. For every propagation call: if the bulk update raises a
  transient error (aborted operation or \<^verbatim>\<open>node_not_connected_exception\<close>), the call
  returns keepGoing = true, and if it raises any other error the call propagates it.
  An error raised by the scan is never transient, because the scan goes through
  \<^verbatim>\<open>_search\<close>, and the call propagates it: when the store fails every attempt with a
  transient error, that error is "Could not perform search.".
\<close>

theorem propagation_failures:
  "(\<forall>esResult st1 error.
      u_search env (scan_params (propagation_query call)) 0 (propagation_debug call) st =
        (Inr esResult, st1) \<and>
      hits esResult \<noteq> [] \<and>
      es_bulk env (length (bulks st1)) (propagation_bulkParams env call esResult) = Inl error \<longrightarrow>
      fst (propagate env call st) = (if retryableError error then Inr True else Inl error)) \<and>
   (\<forall>error st1.
      u_search env (scan_params (propagation_query call)) 0 (propagation_debug call) st =
        (Inl error, st1) \<longrightarrow>
      \<not> retryableError error \<and> fst (propagate env call st) = Inl error) \<and>
   ((\<forall>n req. \<exists>e. es_search env n req = Inl e \<and> retryableError e) \<longrightarrow>
      fst (propagate env call st) = Inl (new_Error ''Could not perform search.''))"
proof (intro conjI allI impI)
  fix esResult st1 error
  assume "u_search env (scan_params (propagation_query call)) 0 (propagation_debug call) st =
        (Inr esResult, st1) \<and>
      hits esResult \<noteq> [] \<and>
      es_bulk env (length (bulks st1)) (propagation_bulkParams env call esResult) = Inl error"
  then show "fst (propagate env call st) = (if retryableError error then Inr True else Inl error)"
    by (simp add: propagate_result)
next
  fix error st1
  assume s: "u_search env (scan_params (propagation_query call)) 0 (propagation_debug call) st =
        (Inl error, st1)"
  then show "\<not> retryableError error"
    by (rule u_search_never_transient)
  from s show "fst (propagate env call st) = Inl error"
    by (simp add: propagate_result)
next
  assume a: "\<forall>n req. \<exists>e. es_search env n req = Inl e \<and> retryableError e"
  have "fst (u_search env (scan_params (propagation_query call)) 0 (propagation_debug call) st) =
      Inl (new_Error ''Could not perform search.'')"
    using u_search_always_transient [OF a, of 0] by simp
  then show "fst (propagate env call st) = Inl (new_Error ''Could not perform search.'')"
    by (cases "u_search env (scan_params (propagation_query call)) 0 (propagation_debug call) st")
      (simp add: propagate_result)
qed

text \<open>
  A transient and a fatal failure of the bulk update, and a fatal and a persistently
  transient failure of the scan.
\<close>

theorem propagation_failures_witness:
  "fst (propagate (example_store (Inr (hits_response [example_hit ''a1''])) (Inl aborted_error))
     (TokenMetadata ''0xABC'' ''1'' example_token_data) world0) = Inr True \<and>
   fst (propagate (example_store (Inr (hits_response [example_hit ''a1''])) (Inl fatal_error))
     (Collection ''0xABC'' ''1'' example_collection ''0xdef'') world0) = Inl fatal_error \<and>
   fst (propagate (example_store (Inl fatal_error) (Inr ok_response))
     (MissingCollection ''0xABC'' 1 example_collection) world0) = Inl fatal_error \<and>
   fst (propagate (example_store (Inl aborted_error) (Inr ok_response))
     (CollectionMetadata ''0xABC'' example_collection_data) world0) =
     Inl (new_Error ''Could not perform search.'')"
  using
    propagation_failures [of
      "example_store (Inr (hits_response [example_hit ''a1''])) (Inl aborted_error)"
      "TokenMetadata ''0xABC'' ''1'' example_token_data" world0]
    propagation_failures [of
      "example_store (Inr (hits_response [example_hit ''a1''])) (Inl fatal_error)"
      "Collection ''0xABC'' ''1'' example_collection ''0xdef''" world0]
    propagation_failures [of
      "example_store (Inl fatal_error) (Inr ok_response)"
      "MissingCollection ''0xABC'' 1 example_collection" world0]
    propagation_failures [of
      "example_store (Inl aborted_error) (Inr ok_response)"
      "CollectionMetadata ''0xABC'' example_collection_data" world0]
  by (simp add: example_scan example_scan_fatal hits_response_def)

text \<open>
  A scan that the store aborts at every attempt: the call raises, it does not return
  true.
\<close>

theorem transient_scan_counterexample:
  "retryableError aborted_error \<and>
   fst (updateActivitiesCollectionMetadata (example_store (Inl aborted_error) (Inr ok_response))
     ''0xABC'' example_collection_data world0) = Inl (new_Error ''Could not perform search.'') \<and>
   fst (updateActivitiesCollectionMetadata (example_store (Inl aborted_error) (Inr ok_response))
     ''0xABC'' example_collection_data world0) \<noteq> Inr True"
  using
    u_search_always_transient [of "example_store (Inl aborted_error) (Inr ok_response)" 0
      "scan_params (updateActivitiesCollectionMetadata_query ''0xABC'' example_collection_data)"
      True world0]
    propagate_result [of "example_store (Inl aborted_error) (Inr ok_response)"
      "CollectionMetadata ''0xABC'' example_collection_data" world0]
  by (simp split: prod.splits)

text \<open>
  A transient failure of the scan that clears at the second attempt is absorbed by
  \<^verbatim>\<open>_search\<close>: the call proceeds with the scan's result, here no candidates.
\<close>

lemma transient_scan_that_clears:
  "fst (updateActivitiesCollectionMetadata (flaky_store 1 (hits_response []) (Inr ok_response))
     ''0xABC'' example_collection_data world0) = Inr False \<and>
   length (searches (snd (updateActivitiesCollectionMetadata
     (flaky_store 1 (hits_response []) (Inr ok_response))
     ''0xABC'' example_collection_data world0))) = 2"
  by code_simp

lemma updateActivitiesTokenMetadata_query_constant:
  "updateActivitiesTokenMetadata_query contract tokenId tokenData =
   updateActivitiesTokenMetadata_query contract' tokenId' tokenData"
  by (simp add: updateActivitiesTokenMetadata_query_def)

text \<open>
  Claim C5 at the call \<^verbatim>\<open>updateActivitiesTokenMetadata("0xABC", "1", tokenData)\<close>: the
  staleness query filters on the contract
  \<^verbatim>\<open>0xb76fbbb30e31f2c3bdaa2466cfb1cfe39b220d06\<close> and the token id \<^verbatim>\<open>7514\<close>, not on the
  arguments, while \<^verbatim>\<open>updateActivitiesCollection\<close> with the same arguments filters on the
  lowercased contract and the token id it was given.
\<close>

theorem token_metadata_query_fixed_pair:
  "map bool_must (bool_filter
     (updateActivitiesTokenMetadata_query ''0xABC'' ''1'' example_token_data)) =
     [[Term ''contract'' (FStr ''0xb76fbbb30e31f2c3bdaa2466cfb1cfe39b220d06''),
       Term ''token.id'' (FStr ''7514'')]] \<and>
   bool_must (updateActivitiesCollection_query ''0xABC'' ''1'' example_collection) =
     [Term ''contract'' (FStr ''0xabc''), Term ''token.id'' (FStr ''1'')]"
  by code_simp

lemma update_targets_scripted:
  "update_targets (concat (map (\<lambda>x. [UpdateOp (f x) (g x) n, Script s (ps x)]) xs)) =
     map (\<lambda>x. (f x, g x)) xs"
  by (induction xs) simp_all

lemma propagation_update_targets:
  "update_targets (body (propagation_bulkParams env call esResult)) =
     map (\<lambda>hit. (case call of
                   MissingCollection contract tokenId collection \<Rightarrow> INDEX_NAME env
                 | _ \<Rightarrow> hit_index hit,
                 activity_id (hit_source hit))) (hits esResult)"
  by (cases call)
    (simp_all add: updateActivitiesMissingCollection_bulkParams_def
      updateActivitiesCollection_bulkParams_def updateActivitiesTokenMetadata_bulkParams_def
      updateActivitiesCollectionMetadata_bulkParams_def pending_of_def
      update_targets_scripted comp_def)

text \<open>
  Every propagation call scans with \<^verbatim>\<open>_source: ["id"]\<close> and \<^verbatim>\<open>size: 1000\<close>, and
  \<open>propagation_update_targets\<close> above says where the updates go: to the index of the hit
  in three of the functions, to \<^verbatim>\<open>INDEX_NAME\<close> in \<^verbatim>\<open>updateActivitiesMissingCollection\<close>.
\<close>

lemma propagate_searches:
  "searches (snd (propagate env call st)) =
   searches (snd (u_search env (scan_params (propagation_query call)) 0
     (propagation_debug call) st))"
  by (cases call)
    (auto simp: updateActivitiesMissingCollection_def updateActivitiesCollection_def
      updateActivitiesTokenMetadata_def updateActivitiesCollectionMetadata_def
      catch_propagation_def send_bulk_def Let_def split: prod.splits sum.splits)

lemma propagation_scan_request:
  "set (sent_searches st (snd (propagate env call st))) =
     {(INDEX_NAME env,
       \<lparr>sp_source = Some [''id''], sp_query = Some (propagation_query call), sp_sort = None,
        sp_size = Some 1000, sp_search_after = None, sp_track_total_hits = Some False\<rparr>)}"
  using sent_searches_u_search [of st env "scan_params (propagation_query call)" 0
      "propagation_debug call"]
  by (simp add: sent_searches_def propagate_searches scan_params_def with_track_total_hits_def)

text \<open>
  Claim C6 at a scan hit found in the physical index
  \<^verbatim>\<open>mainnet.activities-1690000000000\<close>: \<^verbatim>\<open>updateActivitiesMissingCollection\<close> addresses
  its scripted update to the logical alias \<^verbatim>\<open>mainnet.activities\<close>, while
  \<^verbatim>\<open>updateActivitiesCollection\<close> addresses it to the index of the hit.
\<close>

theorem missing_collection_updates_alias:
  "hit_index (example_hit ''a1'') = ''mainnet.activities-1690000000000'' \<and>
   map (\<lambda>req. update_targets (body req))
     (bulks (snd (updateActivitiesMissingCollection
        (example_store (Inr (hits_response [example_hit ''a1''])) (Inr ok_response))
        ''0xABC'' 1 example_collection world0))) =
     [[(''mainnet.activities'', ''a1'')]] \<and>
   map (\<lambda>req. update_targets (body req))
     (bulks (snd (updateActivitiesCollection
        (example_store (Inr (hits_response [example_hit ''a1''])) (Inr ok_response))
        ''0xABC'' ''1'' example_collection ''0xdef'' world0))) =
     [[(''mainnet.activities-1690000000000'', ''a1'')]]"
  by code_simp

section \<open>The index writer\<close>

text \<open>
  The loop over the documents reads the clock once per document; \<open>save_eq\<close> gives the
  call in terms of the store's reply to the one bulk request it sends.
\<close>

lemma stamp_indexedAt_eq:
  "stamp_indexedAt env activities st =
     (map (\<lambda>(i, activity). activity\<lparr>activity_indexedAt := Some (date_now env i)\<rparr>)
        (enumerate (clock_reads st) activities),
      st\<lparr>clock_reads := clock_reads st + length activities\<rparr>)"
  by (induction activities arbitrary: st) simp_all

lemma documents_of_save_body [simp]: "documents_of (save_body env upsert activities) = activities"
  by (cases upsert; induction activities) (simp_all add: save_body_def)

lemma indexedAt_enumerate:
  "map activity_indexedAt
     (map (\<lambda>(i, activity). activity\<lparr>activity_indexedAt := Some (f i)\<rparr>) (enumerate k activities)) =
   map (\<lambda>i. Some (f i)) [k ..< k + length activities]"
  by (induction activities arbitrary: k) (simp_all add: upt_conv_Cons del: upt_Suc)

lemma save_eq:
  "save env activities upsert override st =
     (case es_bulk env (length (bulks st))
        \<lparr>body = save_body env (upsert \<noteq> Some False)
           (if override = Some False then activities else stamped env st activities),
         filter_path = None, ignore = []\<rparr> of
        Inr response \<Rightarrow>
          (Inr (),
           if override = Some False then activities else stamped env st activities,
           (if errors response \<and> upsert \<noteq> Some False
            then logger LogError ''save'' ''save activities errors'' else id)
             ((if override = Some False then st
               else st\<lparr>clock_reads := clock_reads st + length activities\<rparr>)
              \<lparr>bulks := bulks st @
                [\<lparr>body = save_body env (upsert \<noteq> Some False)
                    (if override = Some False then activities else stamped env st activities),
                  filter_path = None, ignore = []\<rparr>]\<rparr>))
      | Inl error \<Rightarrow>
          (Inl error,
           if override = Some False then activities else stamped env st activities,
           logger LogError ''save'' ''error saving activities.''
             ((if override = Some False then st
               else st\<lparr>clock_reads := clock_reads st + length activities\<rparr>)
              \<lparr>bulks := bulks st @
                [\<lparr>body = save_body env (upsert \<noteq> Some False)
                    (if override = Some False then activities else stamped env st activities),
                  filter_path = None, ignore = []\<rparr>]\<rparr>)))"
proof (cases "override = Some False")
  case True
  then show ?thesis
    by (cases upsert) (simp_all add: save_def send_bulk_def split: sum.splits)
next
  case False
  then have "(case override of None \<Rightarrow> True | Some b \<Rightarrow> b) = True"
    by (cases override) auto
  with False show ?thesis
    by (cases upsert)
      (simp_all add: save_def send_bulk_def stamp_indexedAt_eq stamped_def split: sum.splits)
qed


text \<open>
  Claim C8. With the stamp flag enabled (\<^verbatim>\<open>overrideIndexedAt\<close> omitted or true), the
  documents of the bulk request that \<^verbatim>\<open>save\<close> submits, which are the caller's documents
  after the call, are the given documents with \<^verbatim>\<open>indexedAt\<close> set, each to a reading of
  the clock taken during the call before the request is sent. With the flag disabled
  the submitted documents are the given ones, unchanged.
\<close>

theorem save_stamps_indexedAt:
  "(override \<noteq> Some False \<longrightarrow>
      map (\<lambda>req. documents_of (body req))
          (bulks (snd (snd (save env activities upsert override st)))) =
        map (\<lambda>req. documents_of (body req)) (bulks st) @ [stamped env st activities] \<and>
      fst (snd (save env activities upsert override st)) = stamped env st activities \<and>
      map activity_indexedAt (stamped env st activities) =
        map (\<lambda>i. Some (date_now env i)) [clock_reads st ..< clock_reads st + length activities]) \<and>
   (override = Some False \<longrightarrow>
      map (\<lambda>req. documents_of (body req))
          (bulks (snd (snd (save env activities upsert override st)))) =
        map (\<lambda>req. documents_of (body req)) (bulks st) @ [activities] \<and>
      fst (snd (save env activities upsert override st)) = activities)"
proof -
  have "map activity_indexedAt (stamped env st activities) =
        map (\<lambda>i. Some (date_now env i)) [clock_reads st ..< clock_reads st + length activities]"
    unfolding stamped_def by (rule indexedAt_enumerate)
  then show ?thesis
    by (simp add: save_eq split: sum.splits)
qed

text \<open>
  Two documents saved at clock readings 0 and 1, with and without the stamp.
\<close>

theorem save_stamps_indexedAt_witness:
  "map (\<lambda>req. documents_of (body req))
     (bulks (snd (snd (save (example_store (Inl fatal_error) (Inr ok_response))
        [example_activity ''a1'', example_activity ''a2''] None None world0)))) =
     [[(example_activity ''a1'')\<lparr>activity_indexedAt := Some 1700000000000\<rparr>,
       (example_activity ''a2'')\<lparr>activity_indexedAt := Some 1700000000001\<rparr>]] \<and>
   map (\<lambda>req. documents_of (body req))
     (bulks (snd (snd (save (example_store (Inl fatal_error) (Inr ok_response))
        [example_activity ''a1'', example_activity ''a2''] None (Some False) world0)))) =
     [[example_activity ''a1'', example_activity ''a2'']]"
  using
    save_stamps_indexedAt [of None "example_store (Inl fatal_error) (Inr ok_response)"
      "[example_activity ''a1'', example_activity ''a2'']" None world0]
    save_stamps_indexedAt [of "Some False" "example_store (Inl fatal_error) (Inr ok_response)"
      "[example_activity ''a1'', example_activity ''a2'']" None world0]
  by (simp add: world0_def stamped_def enumerate_eq_zip upt_conv_Cons)

text \<open>
  Claim C9, as the code has it. When the bulk call of \<^verbatim>\<open>save\<close> succeeds and its response
  reports per-document errors, \<^verbatim>\<open>save\<close> returns normally in either upsert mode. In upsert
  mode (\<^verbatim>\<open>upsert\<close> omitted or true) it logs one error entry, "save activities errors";
  in create mode (\<^verbatim>\<open>upsert = false\<close>) it logs nothing.
\<close>

theorem save_partial_failure:
  assumes "es_bulk env (length (bulks st))
     \<lparr>body = save_body env (upsert \<noteq> Some False)
        (if override = Some False then activities else stamped env st activities),
      filter_path = None, ignore = []\<rparr> = Inr response"
    and "errors response"
  shows "fst (save env activities upsert override st) = Inr () \<and>
     logs (snd (snd (save env activities upsert override st))) =
       (if upsert \<noteq> Some False
        then logs st @ [\<lparr>log_level = LogError, log_topic = ''save'',
                         log_message = ''save activities errors''\<rparr>]
        else logs st)"
  using assms by (cases "override = Some False") (simp_all add: save_eq)

text \<open>
  A bulk response of two conflicts in upsert mode.
\<close>

theorem save_partial_failure_witness:
  "fst (save (example_store (Inl fatal_error) (Inr (all_conflicts_response 2)))
     [example_activity ''a1'', example_activity ''a2''] None None world0) = Inr () \<and>
   logs (snd (snd (save (example_store (Inl fatal_error) (Inr (all_conflicts_response 2)))
     [example_activity ''a1'', example_activity ''a2''] None None world0))) =
     [\<lparr>log_level = LogError, log_topic = ''save'', log_message = ''save activities errors''\<rparr>]"
  using
    save_partial_failure [of "example_store (Inl fatal_error) (Inr (all_conflicts_response 2))"
      world0 None None "[example_activity ''a1'', example_activity ''a2'']"
      "all_conflicts_response 2"]
  by (simp add: all_conflicts_response_def world0_def)

text \<open>
  The same response in create mode: the call returns normally and nothing is logged.
\<close>

theorem save_create_mode_silent_counterexample:
  "errors (all_conflicts_response 2) \<and>
   fst (save (example_store (Inl fatal_error) (Inr (all_conflicts_response 2)))
     [example_activity ''a1'', example_activity ''a2''] (Some False) None world0) = Inr () \<and>
   logs (snd (snd (save (example_store (Inl fatal_error) (Inr (all_conflicts_response 2)))
     [example_activity ''a1'', example_activity ''a2''] (Some False) None world0))) = []"
  by (simp add: save_eq all_conflicts_response_def world0_def)

section \<open>Search: sort, continuation and time range\<close>

lemma search_searches:
  "search_searchAfter env params = Inr searchAfter \<Longrightarrow>
   searches (snd (search env params debug st)) =
   searches (snd (u_search env (search_params_of params searchAfter) 0 debug st))"
  by (simp add: search_def split: prod.splits sum.splits)

lemma lodash_split_nonempty [simp]: "lodash_split s sep \<noteq> []"
  by (induction s) (auto split: list.splits)

lemma lodash_split_single:
  "sep \<notin> set s \<Longrightarrow> lodash_split s sep = [s]"
  by (induction s) auto

lemma search_searchAfter_cases:
  "\<not> truthy_str (continuation params) \<Longrightarrow> search_searchAfter env params = Inr []"
  "truthy_str (continuation params) \<Longrightarrow> truthy_bool (continuationAsInt params) \<Longrightarrow>
     search_searchAfter env params = Inr [the (continuation params)]"
  by (simp_all add: search_searchAfter_def)

text \<open>
  Claim C3, as the code has it. For every call to \<^verbatim>\<open>search\<close> whose continuation decodes,
  every request sent to the store carries the primary sort field (\<^verbatim>\<open>timestamp\<close> or
  \<^verbatim>\<open>createdAt\<close>, descending), followed by the descending \<^verbatim>\<open>id\<close> tie-break exactly if
  \<^verbatim>\<open>continuationAsInt\<close> is not set and the search-after tuple does not have exactly one
  component. So the tie-break is appended on a first page and after a continuation of
  two or more components, it is never appended when \<^verbatim>\<open>continuationAsInt\<close> is set, and it
  is not appended either after a continuation that decodes to a single component.
\<close>

theorem search_tie_break:
  assumes "search_searchAfter env params = Inr searchAfter"
  shows "set (map (\<lambda>req. sp_sort (snd req))
            (sent_searches st (snd (search env params debug st)))) =
     {Some ((if sortBy params = Some SortByTimestamp
             then [SortClause ''timestamp'' ''desc'' (Some ''epoch_second'')]
             else [SortClause ''createdAt'' ''desc'' None]) @
            (if length searchAfter \<noteq> 1 \<and> \<not> truthy_bool (continuationAsInt params)
             then [SortClause ''id'' ''desc'' None] else []))}"
proof -
  have "set (sent_searches st (snd (search env params debug st))) =
      {(INDEX_NAME env, with_track_total_hits (search_params_of params searchAfter))}"
    using sent_searches_u_search [of st env "search_params_of params searchAfter" 0 debug]
    by (simp add: sent_searches_def search_searches [OF assms])
  then show ?thesis
    by (simp add: with_track_total_hits_def search_params_of_def search_esSort_def)
qed

text \<open>
  A first page, a raw integer cursor, and a cursor of two components, at the identity
  codec.
\<close>

theorem search_tie_break_witness:
  "set (map (\<lambda>req. sp_sort (snd req))
     (sent_searches world0
        (snd (search (example_store (Inr (hits_response [])) (Inr ok_response))
           no_args False world0)))) =
     {Some [SortClause ''createdAt'' ''desc'' None, SortClause ''id'' ''desc'' None]} \<and>
   set (map (\<lambda>req. sp_sort (snd req))
     (sent_searches world0
        (snd (search (example_store (Inr (hits_response [])) (Inr ok_response))
           (no_args\<lparr>continuation := Some ''1700000001'', continuationAsInt := Some True\<rparr>)
           False world0)))) =
     {Some [SortClause ''createdAt'' ''desc'' None]} \<and>
   set (map (\<lambda>req. sp_sort (snd req))
     (sent_searches world0
        (snd (search (example_store (Inr (hits_response [])) (Inr ok_response))
           (no_args\<lparr>continuation := Some ''1700000001_a2''\<rparr>)
           False world0)))) =
     {Some [SortClause ''createdAt'' ''desc'' None, SortClause ''id'' ''desc'' None]}"
  using
    search_tie_break [of "example_store (Inr (hits_response [])) (Inr ok_response)"
      no_args "[]" world0 False]
    search_tie_break [of "example_store (Inr (hits_response [])) (Inr ok_response)"
      "no_args\<lparr>continuation := Some ''1700000001'', continuationAsInt := Some True\<rparr>"
      "[''1700000001'']" world0 False]
    search_tie_break [of "example_store (Inr (hits_response [])) (Inr ok_response)"
      "no_args\<lparr>continuation := Some ''1700000001_a2''\<rparr>"
      "[''1700000001'', ''a2'']" world0 False]
  by (simp add: search_searchAfter_def no_args_def truthy_str_def truthy_bool_def)

text \<open>
  A caller that did not set \<^verbatim>\<open>continuationAsInt\<close> and passes a cursor that decodes to
  the single component \<^verbatim>\<open>1700000001\<close>: the sort sent is the primary field alone.
\<close>

theorem search_single_component_counterexample:
  "continuationAsInt (no_args\<lparr>continuation := Some ''1700000001''\<rparr>) = None \<and>
   map (\<lambda>req. sp_sort (snd req))
     (sent_searches world0
        (snd (search (example_store (Inr (hits_response [])) (Inr ok_response))
           (no_args\<lparr>continuation := Some ''1700000001''\<rparr>) False world0))) =
     [Some [SortClause ''createdAt'' ''desc'' None]]"
  by code_simp

text \<open>
  Claim C4, as the code has it. For every call to \<^verbatim>\<open>search\<close> with a given limit that the
  store answers: if the store returns fewer hits than the limit, the returned
  continuation is null; if it returns exactly limit hits and at least one hit, the
  continuation is the last hit's sort tuple joined with an underscore, encoded with
  \<^verbatim>\<open>buildContinuation\<close>, or passed through raw when \<^verbatim>\<open>continuationAsInt\<close> is set.
\<close>

theorem search_continuation_rule:
  assumes "search_searchAfter env params = Inr searchAfter"
    and "u_search env (search_params_of params searchAfter) 0 debug st = (Inr esResult, st1)"
  shows "(\<forall>l. limit params = Some l \<and> int (length (hits esResult)) < l \<longrightarrow>
            fst (search env params debug st) =
              Inr \<lparr>res_activities = map hit_source (hits esResult), res_continuation = None\<rparr>) \<and>
         (limit params = Some (int (length (hits esResult))) \<and> hits esResult \<noteq> [] \<longrightarrow>
            fst (search env params debug st) =
              Inr \<lparr>res_activities = map hit_source (hits esResult),
                   res_continuation =
                     Some (if truthy_bool (continuationAsInt params)
                           then js_join (hit_sort (last (hits esResult))) ''_''
                           else buildContinuation env
                                  (js_join (hit_sort (last (hits esResult))) ''_''))\<rparr>)"
  using assms
  by (auto simp: search_def search_continuation_def split: list.splits)

text \<open>
  One hit and two hits under a limit of 2.
\<close>

theorem search_continuation_rule_witness:
  "fst (search (example_store (Inr (hits_response [example_hit ''a1''])) (Inr ok_response))
     (no_args\<lparr>limit := Some 2\<rparr>) False world0) =
     Inr \<lparr>res_activities = [example_activity ''a1''], res_continuation = None\<rparr> \<and>
   fst (search (example_store (Inr (hits_response [example_hit ''a1'', example_hit ''a2'']))
       (Inr ok_response))
     (no_args\<lparr>limit := Some 2\<rparr>) False world0) =
     Inr \<lparr>res_activities = [example_activity ''a1'', example_activity ''a2''],
          res_continuation = Some ''1700000001_a2''\<rparr>"
proof -
  have j: "js_join [FNum 1700000001, FStr ''a2''] ''_'' = ''1700000001_a2''"
    by code_simp
  show ?thesis
    using
      search_continuation_rule [of
        "example_store (Inr (hits_response [example_hit ''a1''])) (Inr ok_response)"
        "no_args\<lparr>limit := Some 2\<rparr>" "[]" False world0 "hits_response [example_hit ''a1'']"]
      search_continuation_rule [of
        "example_store (Inr (hits_response [example_hit ''a1'', example_hit ''a2'']))
           (Inr ok_response)"
        "no_args\<lparr>limit := Some 2\<rparr>" "[]" False world0
        "hits_response [example_hit ''a1'', example_hit ''a2'']"]
    by (simp add: search_searchAfter_def no_args_def truthy_str_def truthy_bool_def example_scan
        hits_response_def example_hit_def j del: js_join.simps)
qed

text \<open>
  A limit of 0 answered with no hits: the page is exactly full and the continuation is
  null.
\<close>

theorem search_zero_limit_counterexample:
  "limit (no_args\<lparr>limit := Some 0\<rparr>) = Some (int (length (hits (hits_response [])))) \<and>
   fst (search (example_store (Inr (hits_response [])) (Inr ok_response))
     (no_args\<lparr>limit := Some 0\<rparr>) False world0) =
     Inr \<lparr>res_activities = [], res_continuation = None\<rparr>"
  by code_simp

text \<open>
  The query of every request that \<^verbatim>\<open>search\<close> sends, and a call with a bound of 0 against
  the call without the bound.
\<close>

lemma search_sent_queries:
  assumes "search_searchAfter env params = Inr searchAfter"
  shows "set (map (\<lambda>req. sp_query (snd req))
            (sent_searches st (snd (search env params debug st)))) =
     {Some (search_esQuery params)}"
proof -
  have "set (sent_searches st (snd (search env params debug st))) =
      {(INDEX_NAME env, with_track_total_hits (search_params_of params searchAfter))}"
    using sent_searches_u_search [of st env "search_params_of params searchAfter" 0 debug]
    by (simp add: sent_searches_def search_searches [OF assms])
  then show ?thesis
    by (simp add: with_track_total_hits_def search_params_of_def)
qed

lemma search_start_zero_as_absent:
  assumes "startTimestamp params = Some 0"
  shows "search env params debug st = search env (params\<lparr>startTimestamp := None\<rparr>) debug st"
proof -
  have q: "search_esQuery (params\<lparr>startTimestamp := None\<rparr>) = search_esQuery params"
    using assms by (simp add: search_esQuery_def truthy_num_def)
  have a: "search_searchAfter env (params\<lparr>startTimestamp := None\<rparr>) = search_searchAfter env params"
    by (simp add: search_searchAfter_def)
  have b: "search_params_of (params\<lparr>startTimestamp := None\<rparr>) sa = search_params_of params sa"
    for sa
    by (simp add: search_params_of_def q search_esSort_def)
  have c: "search_continuation env (params\<lparr>startTimestamp := None\<rparr>) r =
      search_continuation env params r" for r
    by (simp add: search_continuation_def)
  show ?thesis
    unfolding search_def a b c by (rule refl)
qed

lemma search_end_zero_as_absent:
  assumes "endTimestamp params = Some 0"
  shows "search env params debug st = search env (params\<lparr>endTimestamp := None\<rparr>) debug st"
proof -
  have q: "search_esQuery (params\<lparr>endTimestamp := None\<rparr>) = search_esQuery params"
    using assms by (simp add: search_esQuery_def truthy_num_def)
  have a: "search_searchAfter env (params\<lparr>endTimestamp := None\<rparr>) = search_searchAfter env params"
    by (simp add: search_searchAfter_def)
  have b: "search_params_of (params\<lparr>endTimestamp := None\<rparr>) sa = search_params_of params sa"
    for sa
    by (simp add: search_params_of_def q search_esSort_def)
  have c: "search_continuation env (params\<lparr>endTimestamp := None\<rparr>) r =
      search_continuation env params r" for r
    by (simp add: search_continuation_def)
  show ?thesis
    unfolding search_def a b c by (rule refl)
qed

text \<open>
  Claim C10. For every call to \<^verbatim>\<open>search\<close> with \<^verbatim>\<open>startTimestamp\<close> equal to 0 (and a
  continuation that decodes, so that a query is sent), every request the call sends to
  the store carries the query \<open>search_esQuery params\<close>, whose filter holds no \<^verbatim>\<open>gte\<close>
  range clause on \<^verbatim>\<open>timestamp\<close> and which is the query built for an absent
  \<^verbatim>\<open>startTimestamp\<close>; the whole call, its result and its requests, is the call with
  \<^verbatim>\<open>startTimestamp\<close> absent. Likewise for \<^verbatim>\<open>endTimestamp\<close> equal to 0 and the \<^verbatim>\<open>lt\<close>
  range clause.
\<close>

theorem search_zero_timestamp_omitted:
  assumes "search_searchAfter env params = Inr searchAfter"
  shows
    "(startTimestamp params = Some 0 \<longrightarrow>
        set (map (\<lambda>req. sp_query (snd req))
               (sent_searches st (snd (search env params debug st)))) =
          {Some (search_esQuery params)} \<and>
        (\<forall>v f. RangeQ ''timestamp'' (Gte v) f \<notin> set (bool_filter (search_esQuery params))) \<and>
        search_esQuery params = search_esQuery (params\<lparr>startTimestamp := None\<rparr>) \<and>
        search env params debug st = search env (params\<lparr>startTimestamp := None\<rparr>) debug st) \<and>
     (endTimestamp params = Some 0 \<longrightarrow>
        set (map (\<lambda>req. sp_query (snd req))
               (sent_searches st (snd (search env params debug st)))) =
          {Some (search_esQuery params)} \<and>
        (\<forall>v f. RangeQ ''timestamp'' (Lt v) f \<notin> set (bool_filter (search_esQuery params))) \<and>
        search_esQuery params = search_esQuery (params\<lparr>endTimestamp := None\<rparr>) \<and>
        search env params debug st = search env (params\<lparr>endTimestamp := None\<rparr>) debug st)"
proof (intro conjI impI)
  assume z: "startTimestamp params = Some 0"
  show "set (map (\<lambda>req. sp_query (snd req))
               (sent_searches st (snd (search env params debug st)))) =
          {Some (search_esQuery params)}"
    by (rule search_sent_queries [OF assms])
  from z show "\<forall>v f. RangeQ ''timestamp'' (Gte v) f \<notin> set (bool_filter (search_esQuery params))"
    by (simp add: search_esQuery_def truthy_num_def)
  from z show "search_esQuery params = search_esQuery (params\<lparr>startTimestamp := None\<rparr>)"
    by (simp add: search_esQuery_def truthy_num_def)
  from z show "search env params debug st =
      search env (params\<lparr>startTimestamp := None\<rparr>) debug st"
    by (rule search_start_zero_as_absent)
next
  assume z: "endTimestamp params = Some 0"
  show "set (map (\<lambda>req. sp_query (snd req))
               (sent_searches st (snd (search env params debug st)))) =
          {Some (search_esQuery params)}"
    by (rule search_sent_queries [OF assms])
  from z show "\<forall>v f. RangeQ ''timestamp'' (Lt v) f \<notin> set (bool_filter (search_esQuery params))"
    by (simp add: search_esQuery_def truthy_num_def)
  from z show "search_esQuery params = search_esQuery (params\<lparr>endTimestamp := None\<rparr>)"
    by (simp add: search_esQuery_def truthy_num_def)
  from z show "search env params debug st =
      search env (params\<lparr>endTimestamp := None\<rparr>) debug st"
    by (rule search_end_zero_as_absent)
qed

text \<open>
  Both bounds 0 beside a type filter: the query sent has the type clause as its whole
  filter.
\<close>

theorem search_zero_timestamp_omitted_witness:
  "set (map (\<lambda>req. sp_query (snd req))
     (sent_searches world0
        (snd (search (example_store (Inr (hits_response [])) (Inr ok_response))
           (no_args\<lparr>types := Some [''sale''], startTimestamp := Some 0, endTimestamp := Some 0\<rparr>)
           False world0)))) =
     {Some (Bool [] [] [] [Terms ''type'' [FStr ''sale'']])}"
proof -
  let ?p = "no_args\<lparr>types := Some [''sale''], startTimestamp := Some 0, endTimestamp := Some 0\<rparr>"
  let ?env = "example_store (Inr (hits_response [])) (Inr ok_response)"
  have d: "search_searchAfter ?env ?p = Inr []"
    by (simp add: search_searchAfter_def no_args_def truthy_str_def)
  have z: "startTimestamp ?p = Some 0"
    by simp
  have q: "search_esQuery ?p = Bool [] [] [] [Terms ''type'' [FStr ''sale'']]"
    by (simp add: search_esQuery_def no_args_def truthy_num_def arr_def)
  from search_zero_timestamp_omitted [OF d, of world0 False] z
  have "set (map (\<lambda>req. sp_query (snd req))
      (sent_searches world0 (snd (search ?env ?p False world0)))) = {Some (search_esQuery ?p)}"
    by blast
  then show ?thesis
    by (simp only: q)
qed

end
